theory Spec2Isabelle
  imports Complex_Main
begin

section \<open>Common model of the Python values\<close>

text \<open>
  The exceptions the modelled functions can raise.  \<open>InitError\<close> is the plain
  \<^verbatim>\<open>Exception\<close> raised by the TF-IDF constructor.
\<close>

datatype error = InitError | KeyError | ValueError | IndexError | ZeroDivisionError | RuntimeError

text \<open>
  A Python dict keeps its keys unique and iterates in insertion order, so it is an
  association list; a well-formed dict has \<open>distinct (map fst d)\<close>.  Floats are
  idealised as reals.  The code is Python 3: \<^verbatim>\<open>/\<close> is true division, and
  \<^verbatim>\<open>d.items()\<close> is a view of the dict, not a copy.
\<close>

type_synonym ('k, 'v) dict = "('k \<times> 'v) list"

definition dict_get :: "('k, 'v) dict \<Rightarrow> 'k \<Rightarrow> 'v option" where
  "dict_get d key = map_of d key"

text \<open>\<^verbatim>\<open>d.update({key: v})\<close> and \<^verbatim>\<open>d[key] = v\<close>: an existing key keeps its position.\<close>

fun dict_update :: "'k \<Rightarrow> 'v \<Rightarrow> ('k, 'v) dict \<Rightarrow> ('k, 'v) dict" where
  "dict_update key v [] = [(key, v)]"
| "dict_update key v (p # ps) =
     (if fst p = key then (key, v) # ps else p # dict_update key v ps)"

text \<open>\<^verbatim>\<open>d.pop(key)\<close> on a key that is present.\<close>

definition dict_pop :: "'k \<Rightarrow> ('k, 'v) dict \<Rightarrow> ('k, 'v) dict" where
  "dict_pop key d = filter (\<lambda>p. fst p \<noteq> key) d"

text \<open>True division \<^verbatim>\<open>x / y\<close>.\<close>

definition py_truediv :: "real \<Rightarrow> real \<Rightarrow> error + real" where
  "py_truediv x y = (if y = 0 then Inl ZeroDivisionError else Inr (x / y))"

text \<open>\<^verbatim>\<open>math.log1p(x)\<close>: the natural logarithm of \<open>1 + x\<close>, a domain error unless \<open>x > -1\<close>.\<close>

definition py_log1p :: "real \<Rightarrow> error + real" where
  "py_log1p x = (if x \<le> - 1 then Inl ValueError else Inr (ln (1 + x)))"

text \<open>\<^verbatim>\<open>math.log(x, 10)\<close>: a domain error unless \<open>x > 0\<close>.\<close>

definition py_log10 :: "real \<Rightarrow> error + real" where
  "py_log10 x = (if x \<le> 0 then Inl ValueError else Inr (log 10 x))"

text \<open>
  A numpy scalar is a finite number or one of the values \<^verbatim>\<open>nan\<close>, \<^verbatim>\<open>inf\<close> and
  \<^verbatim>\<open>-inf\<close>, which numpy's arithmetic returns where Python's own raises.
\<close>

datatype np_float = NpFinite real | NpNaN | NpInf | NpNegInf

text \<open>
  \<^verbatim>\<open>np.sum(xs) / n\<close>: the dividend is a numpy scalar, so the division never raises.
  On the divisor 0 numpy emits a \<^verbatim>\<open>RuntimeWarning\<close> and returns \<^verbatim>\<open>nan\<close> for
  \<^verbatim>\<open>0/0\<close>, and \<^verbatim>\<open>inf\<close> or \<^verbatim>\<open>-inf\<close> for a dividend that is not 0.
\<close>

definition np_truediv :: "real \<Rightarrow> real \<Rightarrow> np_float" where
  "np_truediv x y =
     (if y = 0
      then (if x = 0 then NpNaN else if x > 0 then NpInf else NpNegInf)
      else NpFinite (x / y))"

section \<open>bm25.py\<close>

record ('d, 't) bm25 =
  bm25_documents :: "('d, ('t, int) dict) dict"
  bm25_b :: real
  bm25_k :: real

text \<open>\<^verbatim>\<open>BM25.__init__(documents, b=None, k=None)\<close>.\<close>

definition bm25_init :: "('d, ('t, int) dict) dict \<Rightarrow> real option \<Rightarrow> real option \<Rightarrow> ('d, 't) bm25" where
  "bm25_init documents b k =
     \<lparr>bm25_documents = documents,
      bm25_b = (case b of None \<Rightarrow> 0.75 | Some b' \<Rightarrow> b'),
      bm25_k = (case k of None \<Rightarrow> 1.2 | Some k' \<Rightarrow> k')\<rparr>"

text \<open>The loop of \<^verbatim>\<open>get_average_doc_length\<close>: \<^verbatim>\<open>num_items = num_items + len(v)\<close>.\<close>

fun num_items_loop :: "('d, ('t, int) dict) dict \<Rightarrow> nat \<Rightarrow> nat" where
  "num_items_loop [] num_items = num_items"
| "num_items_loop ((k, v) # rest) num_items = num_items_loop rest (num_items + length v)"

definition get_average_doc_length :: "('d, 't) bm25 \<Rightarrow> error + real" where
  "get_average_doc_length self =
     (let num_docs = length (map fst (bm25_documents self));
          num_items = num_items_loop (bm25_documents self) 0
      in py_truediv (real num_items) (real num_docs))"

text \<open>The loop of \<^verbatim>\<open>get_doc_length\<close>: \<^verbatim>\<open>doc_len += value\<close>.\<close>

fun doc_len_loop :: "('t, int) dict \<Rightarrow> int \<Rightarrow> int" where
  "doc_len_loop [] doc_len = doc_len"
| "doc_len_loop ((term, val) # rest) doc_len = doc_len_loop rest (doc_len + val)"

definition get_doc_length :: "('d, 't) bm25 \<Rightarrow> 'd \<Rightarrow> error + int" where
  "get_doc_length self doc_id =
     (case dict_get (bm25_documents self) doc_id of
        None \<Rightarrow> Inl KeyError
      | Some terms \<Rightarrow> Inr (doc_len_loop terms 0))"

text \<open>
  \<^verbatim>\<open>get_term_frequency_in_doc\<close>: both subscripts of \<^verbatim>\<open>self.documents[doc_id][term]\<close>
  sit inside the \<^verbatim>\<open>try\<close>, whose \<^verbatim>\<open>except KeyError\<close> returns 0.
\<close>

definition get_term_frequency_in_doc :: "('d, 't) bm25 \<Rightarrow> 't \<Rightarrow> 'd \<Rightarrow> int" where
  "get_term_frequency_in_doc self term doc_id =
     (case dict_get (bm25_documents self) doc_id of
        None \<Rightarrow> 0
      | Some terms \<Rightarrow> (case dict_get terms term of None \<Rightarrow> 0 | Some v \<Rightarrow> v))"

text \<open>The document-frequency loop shared by \<^verbatim>\<open>idf_weight\<close> and \<^verbatim>\<open>idf_weight_2\<close>.\<close>

fun df_loop :: "('d, 't) bm25 \<Rightarrow> 't \<Rightarrow> ('d, ('t, int) dict) dict \<Rightarrow> nat \<Rightarrow> nat" where
  "df_loop self term [] df = df"
| "df_loop self term ((k, v) # rest) df =
     (if get_term_frequency_in_doc self term k > 0
      then df_loop self term rest (df + 1)
      else df_loop self term rest df)"

text \<open>
  \<^verbatim>\<open>idf = math.log1p(1 + (num_docs - df + 0.5)/(df + 0.5))\<close>: the argument handed to
  \<^verbatim>\<open>log1p\<close> already carries the summand 1.
\<close>

definition idf_weight_2 :: "('d, 't) bm25 \<Rightarrow> 't \<Rightarrow> error + real" where
  "idf_weight_2 self term =
     (let df = df_loop self term (bm25_documents self) 0;
          num_docs = length (map fst (bm25_documents self))
      in case py_truediv (real num_docs - real df + 0.5) (real df + 0.5) of
           Inl e \<Rightarrow> Inl e
         | Inr q \<Rightarrow> py_log1p (1 + q))"

text \<open>The corpus with the single document \<^verbatim>\<open>{'d1': {'a': 2, 'b': 1}}\<close>.\<close>

definition corpus_d1 :: "(string, string) bm25" where
  "corpus_d1 = bm25_init [(''d1'', [(''a'', 2), (''b'', 1)])] None None"

text \<open>The corpus with the single document \<^verbatim>\<open>{'d1': {'a': 1}}\<close>.\<close>

definition corpus_a :: "(string, string) bm25" where
  "corpus_a = bm25_init [(''d1'', [(''a'', 1)])] None None"

text \<open>
  The two formulas as the specification words them, for comparison with the code: the
  average document length is the sum of all term counts of all documents divided by the
  number of documents, and the probabilistic idf is \<open>log(1 + (N - df + 0.5) / (df + 0.5))\<close>.
\<close>

definition average_document_length_spec :: "('d, ('t, int) dict) dict \<Rightarrow> error + real" where
  "average_document_length_spec documents =
     py_truediv (real_of_int (sum_list (map (\<lambda>doc. sum_list (map snd (snd doc))) documents)))
       (real (length documents))"

definition idf_probabilistic_spec :: "nat \<Rightarrow> nat \<Rightarrow> real" where
  "idf_probabilistic_spec N df = ln (1 + (real N - real df + 0.5) / (real df + 0.5))"

section \<open>performance.py\<close>

text \<open>The loop of \<^verbatim>\<open>filter_relevance_by_threshold\<close>: keep \<^verbatim>\<open>v > threshold\<close>.\<close>

fun threshold_loop :: "('d, real) dict \<Rightarrow> real \<Rightarrow> ('d, real) dict \<Rightarrow> ('d, real) dict" where
  "threshold_loop [] threshold filtered = filtered"
| "threshold_loop ((k, v) # rest) threshold filtered =
     (if v > threshold
      then threshold_loop rest threshold (dict_update k v filtered)
      else threshold_loop rest threshold filtered)"

definition filter_relevance_by_threshold :: "('d, real) dict \<Rightarrow> real \<Rightarrow> ('d, real) dict" where
  "filter_relevance_by_threshold scores threshold = threshold_loop scores threshold []"

text \<open>
  \<^verbatim>\<open>sorted(scores, key=scores.get, reverse=True)\<close>: the keys of the dict, in insertion
  order, sorted by descending score.  Python's sort is stable, also under
  \<^verbatim>\<open>reverse=True\<close>, so it is the stable ascending sort on the negated score.
  \<^verbatim>\<open>scores.get\<close> is only ever applied to keys of \<open>scores\<close>, where it is the score.
\<close>

definition score_key :: "('d, real) dict \<Rightarrow> 'd \<Rightarrow> real" where
  "score_key scores w = (case dict_get scores w of Some v \<Rightarrow> v | None \<Rightarrow> 0)"

definition sorted_reverse :: "('d, real) dict \<Rightarrow> 'd list" where
  "sorted_reverse scores = sort_key (\<lambda>w. - score_key scores w) (map fst scores)"

text \<open>
  The loop of \<^verbatim>\<open>filter_relevance_by_top_k\<close> over the sorted keys, with its
  \<^verbatim>\<open>break\<close> once \<^verbatim>\<open>index < top_k\<close> fails.
\<close>

fun top_k_loop ::
  "('d, real) dict \<Rightarrow> int \<Rightarrow> 'd list \<Rightarrow> int \<Rightarrow> ('d, real) dict \<Rightarrow> error + ('d, real) dict" where
  "top_k_loop scores top_k [] index filtered = Inr filtered"
| "top_k_loop scores top_k (w # ws) index filtered =
     (if index < top_k then
        (case dict_get scores w of
           None \<Rightarrow> Inl KeyError
         | Some v \<Rightarrow> top_k_loop scores top_k ws (index + 1) (dict_update w v filtered))
      else Inr filtered)"

definition filter_relevance_by_top_k :: "('d, real) dict \<Rightarrow> int \<Rightarrow> error + ('d, real) dict" where
  "filter_relevance_by_top_k scores top_k = top_k_loop scores top_k (sorted_reverse scores) 0 []"

definition filter_ranked_list :: "('d, real) dict \<Rightarrow> int \<Rightarrow> real \<Rightarrow> error + ('d, real) dict" where
  "filter_ranked_list scores top_k threshold =
     (let total_retrieved = filter_relevance_by_threshold scores threshold
      in if top_k > 0 then filter_relevance_by_top_k scores top_k else Inr total_retrieved)"

text \<open>
  The ground truth of one query: the columns \<^verbatim>\<open>actual['docid']\<close> and
  \<^verbatim>\<open>actual['rel']\<close> of the data frame.
\<close>

record 'd actual =
  docid :: "'d list"
  rel :: "int list"

text \<open>\<^verbatim>\<open>xs.index(x)\<close>: the first position of \<open>x\<close>; \<open>None\<close> stands for its \<^verbatim>\<open>ValueError\<close>.\<close>

fun list_index :: "'a list \<Rightarrow> 'a \<Rightarrow> nat option" where
  "list_index [] x = None"
| "list_index (y # ys) x = (if y = x then Some 0 else map_option Suc (list_index ys x))"

text \<open>\<^verbatim>\<open>actual_relevance[actual_doc_ids.index(docs)]\<close>.\<close>

definition relevance_at :: "'d list \<Rightarrow> int list \<Rightarrow> 'd \<Rightarrow> error + int" where
  "relevance_at actual_doc_ids actual_relevance docs =
     (case list_index actual_doc_ids docs of
        None \<Rightarrow> Inl ValueError
      | Some i \<Rightarrow> if i < length actual_relevance then Inr (actual_relevance ! i) else Inl IndexError)"

text \<open>
  The loop of \<^verbatim>\<open>avg_precision_score\<close>; \<^verbatim>\<open>except ValueError: pass\<close> skips a document
  that is not in the ground truth.
\<close>

fun ap_loop :: "'d list \<Rightarrow> int list \<Rightarrow> 'd list \<Rightarrow> nat \<Rightarrow> nat \<Rightarrow> real list \<Rightarrow> error + real list" where
  "ap_loop actual_doc_ids actual_relevance [] index count precision_arr = Inr precision_arr"
| "ap_loop actual_doc_ids actual_relevance (docs # rest) index count precision_arr =
     (case relevance_at actual_doc_ids actual_relevance docs of
        Inr r \<Rightarrow>
          if r = 1
          then ap_loop actual_doc_ids actual_relevance rest (index + 1) (count + 1)
                 (precision_arr @ [real (count + 1) / real (index + 1)])
          else ap_loop actual_doc_ids actual_relevance rest (index + 1) count precision_arr
      | Inl e \<Rightarrow>
          if e = ValueError
          then ap_loop actual_doc_ids actual_relevance rest (index + 1) count precision_arr
          else Inl e)"

definition avg_precision_score :: "('d, real) dict \<Rightarrow> 'd actual \<Rightarrow> real \<Rightarrow> int \<Rightarrow> error + real" where
  "avg_precision_score predicted actual threshold top_k =
     (case filter_ranked_list predicted top_k threshold of
        Inl e \<Rightarrow> Inl e
      | Inr total_retrieved \<Rightarrow>
          (case ap_loop (docid actual) (rel actual) (sorted_reverse total_retrieved) 0 0 [] of
             Inl e \<Rightarrow> Inl e
           | Inr precision_arr \<Rightarrow>
               if length precision_arr > 0
               then py_truediv (sum_list precision_arr) (real (length precision_arr))
               else Inr 0))"

text \<open>The loop of \<^verbatim>\<open>ReciprocalRank.rank\<close>, which stops at the first relevant document.\<close>

fun rank_loop :: "'d list \<Rightarrow> int list \<Rightarrow> 'd list \<Rightarrow> nat \<Rightarrow> error + real" where
  "rank_loop actual_doc_ids actual_relevance [] index = Inr 0"
| "rank_loop actual_doc_ids actual_relevance (docs # rest) index =
     (case relevance_at actual_doc_ids actual_relevance docs of
        Inr r \<Rightarrow>
          if r = 1 then Inr (1 / real (index + 1))
          else rank_loop actual_doc_ids actual_relevance rest (index + 1)
      | Inl e \<Rightarrow>
          if e = ValueError then rank_loop actual_doc_ids actual_relevance rest (index + 1)
          else Inl e)"

definition rank :: "('d, real) dict \<Rightarrow> 'd actual \<Rightarrow> real \<Rightarrow> int \<Rightarrow> error + real" where
  "rank predicted actual threshold top_k =
     (case filter_ranked_list predicted top_k threshold of
        Inl e \<Rightarrow> Inl e
      | Inr total_retrieved \<Rightarrow>
          rank_loop (docid actual) (rel actual) (sorted_reverse total_retrieved) 0)"

text \<open>
  The loop of \<^verbatim>\<open>Precision.r_prec\<close>, counting the retrieved documents of label 1.
  The division \<^verbatim>\<open>counter/num_relevant\<close> is made only under the guard
  \<^verbatim>\<open>num_relevant > 0\<close>, where the quotient is the ordinary one.
\<close>

fun r_prec_loop :: "'d list \<Rightarrow> int list \<Rightarrow> 'd list \<Rightarrow> nat \<Rightarrow> error + nat" where
  "r_prec_loop actual_doc_ids actual_relevance [] counter = Inr counter"
| "r_prec_loop actual_doc_ids actual_relevance (docs # rest) counter =
     (case relevance_at actual_doc_ids actual_relevance docs of
        Inr r \<Rightarrow>
          if r = 1 then r_prec_loop actual_doc_ids actual_relevance rest (counter + 1)
          else r_prec_loop actual_doc_ids actual_relevance rest counter
      | Inl e \<Rightarrow>
          if e = ValueError then r_prec_loop actual_doc_ids actual_relevance rest counter
          else Inl e)"

definition r_prec :: "('d, real) dict \<Rightarrow> 'd actual \<Rightarrow> real \<Rightarrow> int \<Rightarrow> error + real" where
  "r_prec predicted actual threshold top_k =
     (case filter_ranked_list predicted top_k threshold of
        Inl e \<Rightarrow> Inl e
      | Inr total_retrieved \<Rightarrow>
          (case r_prec_loop (docid actual) (rel actual) (sorted_reverse total_retrieved) 0 of
             Inl e \<Rightarrow> Inl e
           | Inr counter \<Rightarrow>
               (let num_relevant = sum_list (rel actual)
                in if num_relevant > 0
                   then Inr (real counter / real_of_int num_relevant)
                   else Inr 0)))"

text \<open>
  The accumulators of the three metrics.  \<^verbatim>\<open>AveragePrecision\<close> keeps a dict from query
  to score, \<^verbatim>\<open>ReciprocalRank\<close> the list \<^verbatim>\<open>ranks\<close>, \<^verbatim>\<open>Precision\<close> the list
  \<^verbatim>\<open>scores\<close>.
\<close>

record 'q average_precision =
  precision_scores :: "('q, real) dict"
  recall_scores :: "('q, real) dict"

fun map_score_loop :: "('q, real) dict \<Rightarrow> real \<Rightarrow> real" where
  "map_score_loop [] map_score = map_score"
| "map_score_loop ((k, v) # rest) map_score = map_score_loop rest (map_score + v)"

text \<open>
  \<^verbatim>\<open>mean_avg_precision\<close> divides Python numbers, and only under its guard
  \<^verbatim>\<open>len_prec > 0\<close>; \<^verbatim>\<open>mean_reciprocal_rank\<close> and \<^verbatim>\<open>mean_r_prec\<close> divide the
  numpy scalar \<^verbatim>\<open>np.sum(...)\<close> with no guard.
\<close>

definition mean_avg_precision :: "'q average_precision \<Rightarrow> error + real" where
  "mean_avg_precision self =
     (let map_score = 0;
          len_prec = length (map fst (precision_scores self))
      in if len_prec > 0
         then py_truediv (map_score_loop (precision_scores self) map_score) (real len_prec)
         else Inr 0)"

record reciprocal_rank =
  ranks :: "real list"

definition mean_reciprocal_rank :: "reciprocal_rank \<Rightarrow> np_float" where
  "mean_reciprocal_rank self =
     (let num_queries = length (ranks self)
      in np_truediv (sum_list (ranks self)) (real num_queries))"

record precision =
  r_prec_scores :: "real list"

definition mean_r_prec :: "precision \<Rightarrow> np_float" where
  "mean_r_prec self =
     (let num_r_prec = length (r_prec_scores self)
      in np_truediv (sum_list (r_prec_scores self)) (real num_r_prec))"

text \<open>
  The end-to-end scenario: ground truth \<^verbatim>\<open>[d1, d2, d3]\<close> with labels \<^verbatim>\<open>[1, 0, 1]\<close>
  and predicted scores \<^verbatim>\<open>{d1: 0.9, d2: 0.5, d3: 0.1}\<close>; and a score map of six
  documents.
\<close>

definition q1_actual :: "string actual" where
  "q1_actual = \<lparr>docid = [''d1'', ''d2'', ''d3''], rel = [1, 0, 1]\<rparr>"

definition q1_predicted :: "(string, real) dict" where
  "q1_predicted = [(''d1'', 0.9), (''d2'', 0.5), (''d3'', 0.1)]"

definition six_scores :: "(string, real) dict" where
  "six_scores =
     [(''d1'', 0.9), (''d2'', 0.5), (''d3'', 0.1), (''d4'', 0.7), (''d5'', 0.5), (''d6'', 0.3)]"

section \<open>tf_idf.py\<close>

record ('d, 't) tfidf =
  tfidf_documents :: "('d, ('t, int) dict) dict"
  idf_vector :: "('t, real) dict"
  term_doc_matrix :: "('d, ('t, real) dict) dict"

text \<open>\<^verbatim>\<open>key in d\<close>.\<close>

definition dict_mem :: "'k \<Rightarrow> ('k, 'v) dict \<Rightarrow> bool" where
  "dict_mem key d = (dict_get d key \<noteq> None)"

text \<open>
  Modelled from the spec: \<^verbatim>\<open>Utils.add_ele_to_matrix\<close> is imported from \<^verbatim>\<open>utils\<close>, which
  is not among the sources.  The matrices are sparse maps from document id to term to
  value in which only the present terms are populated, so the call stores \<open>val\<close>
  under \<^verbatim>\<open>matrix[k][word]\<close> and creates the row of \<open>k\<close> when there is none.
\<close>

definition add_ele_to_matrix ::
  "('d, ('t, real) dict) dict \<Rightarrow> 'd \<Rightarrow> 't \<Rightarrow> real \<Rightarrow> ('d, ('t, real) dict) dict" where
  "add_ele_to_matrix matrix k word val =
     (case dict_get matrix k of
        None \<Rightarrow> dict_update k [(word, val)] matrix
      | Some row \<Rightarrow> dict_update k (dict_update word val row) matrix)"

text \<open>The loop of \<^verbatim>\<open>get_max_freq_term\<close>.\<close>

fun max_freq_loop :: "('t, int) dict \<Rightarrow> int \<Rightarrow> int" where
  "max_freq_loop [] max_freq = max_freq"
| "max_freq_loop ((k, v) # rest) max_freq =
     (if v > max_freq then max_freq_loop rest v else max_freq_loop rest max_freq)"

definition get_max_freq_term :: "('d, ('t, int) dict) dict \<Rightarrow> 'd \<Rightarrow> error + int" where
  "get_max_freq_term matrix doc_id =
     (case dict_get matrix doc_id of
        None \<Rightarrow> Inl KeyError
      | Some terms \<Rightarrow> Inr (max_freq_loop terms 0))"

text \<open>
  \<^verbatim>\<open>vocabulary = vocabulary.union(words_set)\<close>.  A Python set iterates in an order of
  its own; the model lists the vocabulary without repetition, and nothing below depends
  on the order.
\<close>

fun vocabulary_loop :: "('d, ('t, int) dict) dict \<Rightarrow> 't list \<Rightarrow> 't list" where
  "vocabulary_loop [] vocabulary = vocabulary"
| "vocabulary_loop ((doc, terms) # rest) vocabulary =
     vocabulary_loop rest (remdups (vocabulary @ map fst terms))"

text \<open>The inner loop of \<^verbatim>\<open>create_idf_matrix\<close>, which counts the documents of one term.\<close>

fun idf_docs_loop ::
  "'t \<Rightarrow> ('d, ('t, int) dict) dict \<Rightarrow> ('t, nat) dict \<Rightarrow> error + ('t, nat) dict" where
  "idf_docs_loop term [] idf_matrix = Inr idf_matrix"
| "idf_docs_loop term ((doc, terms) # rest) idf_matrix =
     (if \<not> dict_mem term idf_matrix \<and> dict_mem term terms
      then idf_docs_loop term rest (dict_update term 1 idf_matrix)
      else if dict_mem term terms
      then (case dict_get idf_matrix term of
              None \<Rightarrow> Inl KeyError
            | Some count \<Rightarrow> idf_docs_loop term rest (dict_update term (count + 1) idf_matrix))
      else idf_docs_loop term rest idf_matrix)"

fun idf_terms_loop ::
  "'t list \<Rightarrow> ('d, ('t, int) dict) dict \<Rightarrow> ('t, nat) dict \<Rightarrow> error + ('t, nat) dict" where
  "idf_terms_loop [] matrix idf_matrix = Inr idf_matrix"
| "idf_terms_loop (term # rest) matrix idf_matrix =
     (case idf_docs_loop term matrix idf_matrix of
        Inl e \<Rightarrow> Inl e
      | Inr idf_matrix' \<Rightarrow> idf_terms_loop rest matrix idf_matrix')"

text \<open>
  The last loop of \<^verbatim>\<open>create_idf_matrix\<close> replaces each count in place:
  \<^verbatim>\<open>idf_matrix[word] = math.log(num_docs/idf_matrix[word], 10)\<close>.
\<close>

fun idf_log_loop :: "nat \<Rightarrow> ('t, nat) dict \<Rightarrow> error + ('t, real) dict" where
  "idf_log_loop num_docs [] = Inr []"
| "idf_log_loop num_docs ((word, count) # rest) =
     (case py_truediv (real num_docs) (real count) of
        Inl e \<Rightarrow> Inl e
      | Inr q \<Rightarrow>
          (case py_log10 q of
             Inl e \<Rightarrow> Inl e
           | Inr w \<Rightarrow>
               (case idf_log_loop num_docs rest of
                  Inl e \<Rightarrow> Inl e
                | Inr rest' \<Rightarrow> Inr ((word, w) # rest'))))"

definition create_idf_matrix :: "('d, ('t, int) dict) dict \<Rightarrow> error + ('t, real) dict" where
  "create_idf_matrix matrix =
     (let num_docs = length matrix;
          vocabulary = vocabulary_loop matrix []
      in case idf_terms_loop vocabulary matrix [] of
           Inl e \<Rightarrow> Inl e
         | Inr idf_matrix \<Rightarrow> idf_log_loop num_docs idf_matrix)"

text \<open>The loops of \<^verbatim>\<open>create_tf_matrix\<close>: over the words of one document, and over the documents.\<close>

fun tf_words_loop ::
  "'d \<Rightarrow> ('t, int) dict \<Rightarrow> int \<Rightarrow> 't list \<Rightarrow> ('d, ('t, real) dict) dict
     \<Rightarrow> error + ('d, ('t, real) dict) dict" where
  "tf_words_loop k v max_freq [] tf_matrix = Inr tf_matrix"
| "tf_words_loop k v max_freq (word # rest) tf_matrix =
     (case dict_get v word of
        None \<Rightarrow> Inl KeyError
      | Some c \<Rightarrow>
          (case py_log10 (real_of_int c) of
             Inl e \<Rightarrow> Inl e
           | Inr lc \<Rightarrow>
               (case py_log10 (real_of_int max_freq) of
                  Inl e \<Rightarrow> Inl e
                | Inr lm \<Rightarrow>
                    (case py_truediv (1 + lc) (1 + lm) of
                       Inl e \<Rightarrow> Inl e
                     | Inr val \<Rightarrow>
                         tf_words_loop k v max_freq rest
                           (add_ele_to_matrix tf_matrix k word val)))))"

fun tf_docs_loop ::
  "('d, ('t, int) dict) dict \<Rightarrow> ('d, ('t, int) dict) dict \<Rightarrow> ('d, ('t, real) dict) dict
     \<Rightarrow> error + ('d, ('t, real) dict) dict" where
  "tf_docs_loop matrix [] tf_matrix = Inr tf_matrix"
| "tf_docs_loop matrix ((k, v) # rest) tf_matrix =
     (case get_max_freq_term matrix k of
        Inl e \<Rightarrow> Inl e
      | Inr max_freq \<Rightarrow>
          (case tf_words_loop k v max_freq (map fst v) tf_matrix of
             Inl e \<Rightarrow> Inl e
           | Inr tf_matrix' \<Rightarrow> tf_docs_loop matrix rest tf_matrix'))"

definition create_tf_matrix :: "('d, ('t, int) dict) dict \<Rightarrow> error + ('d, ('t, real) dict) dict" where
  "create_tf_matrix matrix = tf_docs_loop matrix matrix []"

text \<open>The loops of \<^verbatim>\<open>create_tf_idf_matrix\<close>: \<^verbatim>\<open>value = v[word] * self.idf_vector[word]\<close>.\<close>

fun tf_idf_words_loop ::
  "('t, real) dict \<Rightarrow> 'd \<Rightarrow> ('t, real) dict \<Rightarrow> 't list \<Rightarrow> ('d, ('t, real) dict) dict
     \<Rightarrow> error + ('d, ('t, real) dict) dict" where
  "tf_idf_words_loop idf k v [] tf_idf_matrix = Inr tf_idf_matrix"
| "tf_idf_words_loop idf k v (word # rest) tf_idf_matrix =
     (case dict_get v word of
        None \<Rightarrow> Inl KeyError
      | Some tf \<Rightarrow>
          (case dict_get idf word of
             None \<Rightarrow> Inl KeyError
           | Some w \<Rightarrow>
               tf_idf_words_loop idf k v rest (add_ele_to_matrix tf_idf_matrix k word (tf * w))))"

fun tf_idf_docs_loop ::
  "('t, real) dict \<Rightarrow> ('d, ('t, real) dict) dict \<Rightarrow> ('d, ('t, real) dict) dict
     \<Rightarrow> error + ('d, ('t, real) dict) dict" where
  "tf_idf_docs_loop idf [] tf_idf_matrix = Inr tf_idf_matrix"
| "tf_idf_docs_loop idf ((k, v) # rest) tf_idf_matrix =
     (case tf_idf_words_loop idf k v (map fst v) tf_idf_matrix of
        Inl e \<Rightarrow> Inl e
      | Inr tf_idf_matrix' \<Rightarrow> tf_idf_docs_loop idf rest tf_idf_matrix')"

text \<open>
  \<^verbatim>\<open>create_tf_idf_matrix\<close> assigns \<^verbatim>\<open>self.idf_vector\<close> and returns the matrix: the
  model returns the updated engine with it.
\<close>

definition create_tf_idf_matrix ::
  "('d, 't) tfidf \<Rightarrow> error + (('d, 't) tfidf \<times> ('d, ('t, real) dict) dict)" where
  "create_tf_idf_matrix self =
     (let matrix = tfidf_documents self
      in case create_idf_matrix matrix of
           Inl e \<Rightarrow> Inl e
         | Inr idf \<Rightarrow>
             (let self' = self\<lparr>idf_vector := idf\<rparr>
              in case create_tf_matrix matrix of
                   Inl e \<Rightarrow> Inl e
                 | Inr tf_matrix \<Rightarrow>
                     (case tf_idf_docs_loop (idf_vector self') tf_matrix [] of
                        Inl e \<Rightarrow> Inl e
                      | Inr tf_idf_matrix \<Rightarrow> Inr (self', tf_idf_matrix))))"

text \<open>
  \<^verbatim>\<open>TFIDF.__init__(documents)\<close>; the argument \<^verbatim>\<open>None\<close> is \<open>None\<close>, a dict \<open>d\<close> is
  \<open>Some d\<close>.  The only check is \<^verbatim>\<open>documents is None\<close>.
\<close>

definition tfidf_init :: "('d, ('t, int) dict) dict option \<Rightarrow> error + ('d, 't) tfidf" where
  "tfidf_init documents =
     (case documents of
        None \<Rightarrow> Inl InitError
      | Some docs \<Rightarrow>
          (let self = \<lparr>tfidf_documents = docs, idf_vector = [], term_doc_matrix = []\<rparr>
           in case create_tf_idf_matrix self of
                Inl e \<Rightarrow> Inl e
              | Inr (self', matrix) \<Rightarrow> Inr (self'\<lparr>term_doc_matrix := matrix\<rparr>)))"

text \<open>
  \<^verbatim>\<open>query.split()\<close>: the maximal runs of characters that are not whitespace.  Strings
  are modelled as ASCII, whose whitespace characters are the ones listed.
\<close>

definition is_space :: "char \<Rightarrow> bool" where
  "is_space c = (c \<in> set [CHR '' '', CHR 0x09, CHR 0x0A, CHR 0x0B, CHR 0x0C, CHR 0x0D,
                          CHR 0x1C, CHR 0x1D, CHR 0x1E, CHR 0x1F])"

fun split_loop :: "string \<Rightarrow> string \<Rightarrow> string list" where
  "split_loop [] word = (if word = [] then [] else [word])"
| "split_loop (c # cs) word =
     (if is_space c
      then (if word = [] then split_loop cs [] else word # split_loop cs [])
      else split_loop cs (word @ [c]))"

definition str_split :: "string \<Rightarrow> string list" where
  "str_split query = split_loop query []"

text \<open>The counting loop of \<^verbatim>\<open>create_query_vector\<close>: \<^verbatim>\<open>word_dict[word] += 1\<close>.\<close>

fun count_loop :: "'t list \<Rightarrow> ('t, real) dict \<Rightarrow> error + ('t, real) dict" where
  "count_loop [] word_dict = Inr word_dict"
| "count_loop (word # rest) word_dict =
     (case dict_get word_dict word of
        None \<Rightarrow> Inl KeyError
      | Some c \<Rightarrow> count_loop rest (dict_update word (c + 1) word_dict))"

text \<open>
  The weighting loop of \<^verbatim>\<open>create_query_vector\<close> runs over \<^verbatim>\<open>word_dict.items()\<close>, a
  view of the dict that the body itself changes.  Before it hands out the next item, and
  also before it reports that there is none left, the iterator compares the size of the
  dict with the size \<open>used\<close> it had when the iteration began and raises
  \<^verbatim>\<open>RuntimeError\<close> (dictionary changed size during iteration) when they differ.
  Assigning to an existing key keeps the size; \<^verbatim>\<open>word_dict.pop(k)\<close> does not.
\<close>

fun weight_loop ::
  "('t, real) dict \<Rightarrow> nat \<Rightarrow> ('t, real) dict \<Rightarrow> ('t, real) dict \<Rightarrow> error + ('t, real) dict" where
  "weight_loop idf used [] word_dict =
     (if length word_dict \<noteq> used then Inl RuntimeError else Inr word_dict)"
| "weight_loop idf used ((k, v) # rest) word_dict =
     (if length word_dict \<noteq> used then Inl RuntimeError
      else case dict_get idf k of
             Some w \<Rightarrow> weight_loop idf used rest (dict_update k (w * v) word_dict)
           | None \<Rightarrow> weight_loop idf used rest (dict_pop k word_dict))"

definition create_query_vector :: "('d, string) tfidf \<Rightarrow> string \<Rightarrow> error + (string, real) dict" where
  "create_query_vector self query =
     (let tokens = str_split query;
          tokens_set = remdups tokens;
          word_dict = map (\<lambda>w. (w, 0)) tokens_set
      in case count_loop tokens word_dict of
           Inl e \<Rightarrow> Inl e
         | Inr word_dict' \<Rightarrow> weight_loop (idf_vector self) (length word_dict') word_dict' word_dict')"

text \<open>The corpus \<^verbatim>\<open>{'d1': {'a': 1}}\<close> and the engine that \<^verbatim>\<open>TFIDF\<close> builds from it.\<close>

definition corpus_a_docs :: "(string, (string, int) dict) dict" where
  "corpus_a_docs = [(''d1'', [(''a'', 1)])]"

definition engine_a :: "(string, string) tfidf" where
  "engine_a = \<lparr>tfidf_documents = corpus_a_docs, idf_vector = [(''a'', 0)],
                term_doc_matrix = [(''d1'', [(''a'', 0)])]\<rparr>"

section \<open>Properties of bm25.py\<close>

text \<open>
  C1.  The average document length is claimed to be the sum of all term counts of all
  documents divided by the number of documents.  On the corpus
  \<^verbatim>\<open>{'d1': {'a': 2, 'b': 1}}\<close> the term counts sum to 3, which is the claimed
  average and also what \<^verbatim>\<open>get_doc_length\<close> returns for the only document;
  \<^verbatim>\<open>get_average_doc_length\<close> adds \<^verbatim>\<open>len(v)\<close>, the number of distinct terms,
  and returns 2.
\<close>

theorem get_average_doc_length_counts_distinct_terms:
  "get_average_doc_length corpus_d1 = Inr 2
   \<and> average_document_length_spec (bm25_documents corpus_d1) = Inr 3
   \<and> get_doc_length corpus_d1 ''d1'' = Inr 3"
  by (simp add: get_average_doc_length_def average_document_length_spec_def get_doc_length_def
      corpus_d1_def bm25_init_def py_truediv_def dict_get_def)

lemma df_loop_bound: "df_loop self term docs df \<le> df + length docs"
proof (induction docs arbitrary: df)
  case Nil
  show ?case by simp
next
  case (Cons p docs)
  obtain k v where p: "p = (k, v)" by (cases p)
  have "df_loop self term docs (df + 1) \<le> df + 1 + length docs"
    and "df_loop self term docs df \<le> df + length docs"
    using Cons.IH by blast+
  then show ?case by (simp add: p)
qed

text \<open>
  What \<^verbatim>\<open>idf_weight_2\<close> computes on every corpus and term: it never raises, and
  the logarithm is taken of \<open>2 + (N - df + 0.5) / (df + 0.5)\<close>.
\<close>

lemma idf_weight_2_value:
  "idf_weight_2 self term =
     Inr (ln (2 + (real (length (bm25_documents self))
                   - real (df_loop self term (bm25_documents self) 0) + 1/2)
              / (real (df_loop self term (bm25_documents self) 0) + 1/2)))"
proof -
  let ?df = "df_loop self term (bm25_documents self) 0"
  let ?n = "length (bm25_documents self)"
  have "?df \<le> ?n" using df_loop_bound [of self "term" "bm25_documents self" 0] by simp
  then have "0 \<le> (real ?n - real ?df + 1/2) / (real ?df + 1/2)" by simp
  then show ?thesis
    by (simp add: idf_weight_2_def py_truediv_def py_log1p_def Let_def add.commute)
qed

text \<open>
  C2.  The probabilistic idf is claimed to be \<open>log(1 + (N - df + 0.5) / (df + 0.5))\<close>.
  On the corpus \<^verbatim>\<open>{'d1': {'a': 1}}\<close> and the term \<^verbatim>\<open>a\<close> we have \<open>N = 1\<close> and
  \<open>df = 1\<close>, so the claimed value is \<open>ln (4/3)\<close>; the code passes an argument that
  already contains the 1 to \<^verbatim>\<open>math.log1p\<close> and returns \<open>ln (7/3)\<close>.
\<close>

theorem idf_weight_2_adds_one_twice:
  "idf_weight_2 corpus_a ''a'' = Inr (ln (7 / 3))
   \<and> idf_probabilistic_spec 1 1 = ln (4 / 3)
   \<and> idf_weight_2 corpus_a ''a'' \<noteq> Inr (idf_probabilistic_spec 1 1)"
proof -
  have code: "idf_weight_2 corpus_a ''a'' = Inr (ln (7 / 3))"
    by (simp add: idf_weight_2_def corpus_a_def bm25_init_def get_term_frequency_in_doc_def
        dict_get_def py_truediv_def py_log1p_def)
  have spec: "idf_probabilistic_spec 1 1 = ln (4 / 3)"
    by (simp add: idf_probabilistic_spec_def)
  have "ln (7 / 3) \<noteq> ln (4 / 3 :: real)" by simp
  then show ?thesis using code spec by simp
qed

text \<open>
  C10.  For a document identifier that is not in the corpus,
  \<^verbatim>\<open>get_term_frequency_in_doc\<close> returns 0 for every term: the \<^verbatim>\<open>KeyError\<close> of the
  outer subscript is caught by the same handler as that of the inner one.
  \<^verbatim>\<open>get_doc_length\<close> on the same identifier raises \<^verbatim>\<open>KeyError\<close>.
\<close>

theorem get_term_frequency_in_doc_missing_doc:
  "dict_get (bm25_documents self) doc_id = None \<Longrightarrow>
   get_term_frequency_in_doc self term doc_id = 0 \<and> get_doc_length self doc_id = Inl KeyError"
  by (simp add: get_term_frequency_in_doc_def get_doc_length_def)

theorem get_term_frequency_in_doc_missing_doc_witness:
  "dict_get (bm25_documents corpus_d1) ''d9'' = None \<and>
   get_term_frequency_in_doc corpus_d1 ''a'' ''d9'' = 0 \<and>
   get_doc_length corpus_d1 ''d9'' = Inl KeyError"
proof -
  have h: "dict_get (bm25_documents corpus_d1) ''d9'' = None"
    by (simp add: corpus_d1_def bm25_init_def dict_get_def)
  show ?thesis using h get_term_frequency_in_doc_missing_doc [OF h, of "''a''"] by simp
qed

section \<open>Properties of performance.py\<close>

subsection \<open>The top-k filter keeps a prefix of the sorted keys\<close>

lemma dict_update_fresh:
  "key \<notin> fst ` set d \<Longrightarrow> dict_update key v d = d @ [(key, v)]"
  by (induction d) auto

lemma dict_get_Some_score_key:
  "dict_get scores w = Some v \<Longrightarrow> score_key scores w = v"
  by (simp add: score_key_def)

lemma dict_get_key:
  "w \<in> fst ` set scores \<Longrightarrow> \<exists>v. dict_get scores w = Some v"
  unfolding dict_get_def by (cases "map_of scores w") (auto simp: map_of_eq_None_iff)

lemma top_k_loop_take:
  assumes "distinct ws" and "set ws \<subseteq> fst ` set scores"
    and "set ws \<inter> fst ` set filtered = {}"
  shows "top_k_loop scores top_k ws index filtered =
           Inr (filtered @ map (\<lambda>w. (w, score_key scores w)) (take (nat (top_k - index)) ws))"
  using assms
proof (induction ws arbitrary: index filtered)
  case Nil
  show ?case by simp
next
  case (Cons w ws)
  show ?case
  proof (cases "index < top_k")
    case False
    then show ?thesis by simp
  next
    case True
    from Cons.prems obtain v where v: "dict_get scores w = Some v"
      using dict_get_key [of w scores] by auto
    have fresh: "w \<notin> fst ` set filtered" using Cons.prems by auto
    have upd: "dict_update w v filtered = filtered @ [(w, v)]"
      using fresh by (rule dict_update_fresh)
    have disj: "set ws \<inter> fst ` set (filtered @ [(w, v)]) = {}"
      using Cons.prems by auto
    have ih: "top_k_loop scores top_k ws (index + 1) (filtered @ [(w, v)]) =
                Inr ((filtered @ [(w, v)]) @
                  map (\<lambda>w. (w, score_key scores w)) (take (nat (top_k - (index + 1))) ws))"
      using Cons.IH [OF _ _ disj] Cons.prems by simp
    have n: "nat (top_k - index) = Suc (nat (top_k - (index + 1)))"
      using True by simp
    show ?thesis
      using True v upd ih n by (simp add: dict_get_Some_score_key)
  qed
qed

lemma filter_relevance_by_top_k_take:
  assumes "distinct (map fst scores)"
  shows "filter_relevance_by_top_k scores top_k =
           Inr (map (\<lambda>w. (w, score_key scores w)) (take (nat top_k) (sorted_reverse scores)))"
proof -
  have "distinct (sorted_reverse scores)"
    using assms by (simp add: sorted_reverse_def)
  moreover have "set (sorted_reverse scores) \<subseteq> fst ` set scores"
    by (simp add: sorted_reverse_def)
  ultimately show ?thesis
    unfolding filter_relevance_by_top_k_def
    using top_k_loop_take [of "sorted_reverse scores" scores "[]" top_k 0] by simp
qed

lemma score_key_entry:
  assumes "distinct (map fst scores)"
  shows "(w, v) \<in> set scores \<longleftrightarrow> w \<in> fst ` set scores \<and> score_key scores w = v"
proof
  assume "(w, v) \<in> set scores"
  then show "w \<in> fst ` set scores \<and> score_key scores w = v"
    using assms by (force simp: score_key_def dict_get_def)
next
  assume a: "w \<in> fst ` set scores \<and> score_key scores w = v"
  then obtain v' where "(w, v') \<in> set scores" by auto
  moreover from this have "score_key scores w = v'"
    using assms by (simp add: score_key_def dict_get_def)
  ultimately show "(w, v) \<in> set scores" using a by simp
qed

lemma sorted_reverse_descending:
  assumes "x \<in> set (take n (sorted_reverse scores))"
    and "y \<in> set (drop n (sorted_reverse scores))"
  shows "score_key scores y \<le> score_key scores x"
proof -
  let ?s = "sorted_reverse scores"
  have "sorted (map (\<lambda>w. - score_key scores w) ?s)"
    by (simp add: sorted_reverse_def)
  then have "sorted (map (\<lambda>w. - score_key scores w) (take n ?s) @
                     map (\<lambda>w. - score_key scores w) (drop n ?s))"
    by (simp flip: map_append)
  then have "- score_key scores x \<le> - score_key scores y"
    using assms by (auto simp: sorted_append)
  then show ?thesis by simp
qed

text \<open>
  C8.  For a score map, that is a dict with unique keys, and a natural number \<open>k\<close>,
  \<^verbatim>\<open>filter_relevance_by_top_k\<close> returns without error exactly \<open>min k |scores|\<close>
  entries of the score map, and the score of every returned entry is at least the
  score of every entry that was left out.
\<close>

theorem filter_relevance_by_top_k_size_and_order:
  assumes "distinct (map fst scores)"
  shows "\<exists>r. filter_relevance_by_top_k scores (int k) = Inr r
           \<and> length r = min k (length scores)
           \<and> set r \<subseteq> set scores
           \<and> (\<forall>(d, v) \<in> set r. \<forall>(d', v') \<in> set scores - set r. v' \<le> v)"
proof -
  let ?s = "sorted_reverse scores"
  let ?r = "map (\<lambda>w. (w, score_key scores w)) (take k ?s)"
  have r: "filter_relevance_by_top_k scores (int k) = Inr ?r"
    using filter_relevance_by_top_k_take [OF assms, of "int k"] by simp
  have set_s: "set ?s = fst ` set scores" by (simp add: sorted_reverse_def)
  have len: "length ?r = min k (length scores)"
    by (simp add: sorted_reverse_def min.commute)
  have sub: "set ?r \<subseteq> set scores"
  proof
    fix p assume "p \<in> set ?r"
    then obtain w where w: "w \<in> set (take k ?s)" and p: "p = (w, score_key scores w)" by auto
    from w have "w \<in> fst ` set scores" using set_s by (auto dest: in_set_takeD)
    then show "p \<in> set scores" using score_key_entry [OF assms, of w "score_key scores w"] p by simp
  qed
  have ord: "\<forall>(d, v) \<in> set ?r. \<forall>(d', v') \<in> set scores - set ?r. v' \<le> v"
  proof (clarify)
    fix d v d' v'
    assume in_r: "(d, v) \<in> set ?r" and in_s: "(d', v') \<in> set scores" and out: "(d', v') \<notin> set ?r"
    from in_r have d: "d \<in> set (take k ?s)" and v: "v = score_key scores d" by auto
    from in_s have d': "d' \<in> set ?s" and v': "v' = score_key scores d'"
      using score_key_entry [OF assms, of d' v'] set_s by auto
    have "d' \<notin> set (take k ?s)" using out v' by auto
    with d' have "d' \<in> set (drop k ?s)"
      by (metis Un_iff append_take_drop_id set_append)
    then show "v' \<le> v" using sorted_reverse_descending [OF d] v v' by simp
  qed
  show ?thesis using r len sub ord by blast
qed

theorem filter_relevance_by_top_k_size_and_order_witness:
  "distinct (map fst six_scores)
   \<and> (\<exists>r. filter_relevance_by_top_k six_scores (int 3) = Inr r
         \<and> length r = min 3 (length six_scores)
         \<and> set r \<subseteq> set six_scores
         \<and> (\<forall>(d, v) \<in> set r. \<forall>(d', v') \<in> set six_scores - set r. v' \<le> v))"
proof -
  have h: "distinct (map fst six_scores)" by (simp add: six_scores_def)
  show ?thesis
    using h filter_relevance_by_top_k_size_and_order [OF h, of 3] by simp
qed

text \<open>
  C3.  \<^verbatim>\<open>filter_ranked_list\<close> returns the top-k filtering of the unfiltered score map
  whenever \<open>top_k > 0\<close>, and the threshold filtering only when \<open>top_k \<le> 0\<close>.  In
  particular, with \<open>top_k = 5\<close> and a threshold above every score, a score map of at
  least five documents still yields five results.
\<close>

theorem filter_ranked_list_precedence:
  "(0 < top_k \<longrightarrow> filter_ranked_list scores top_k threshold = filter_relevance_by_top_k scores top_k)
   \<and> (top_k \<le> 0 \<longrightarrow>
        filter_ranked_list scores top_k threshold = Inr (filter_relevance_by_threshold scores threshold))
   \<and> (distinct (map fst scores) \<and> 5 \<le> length scores \<and> (\<forall>(d, v) \<in> set scores. v < threshold) \<longrightarrow>
        (\<exists>r. filter_ranked_list scores 5 threshold = Inr r \<and> length r = 5))"
proof (intro conjI impI)
  assume "0 < top_k"
  then show "filter_ranked_list scores top_k threshold = filter_relevance_by_top_k scores top_k"
    by (simp add: filter_ranked_list_def)
next
  assume "top_k \<le> 0"
  then show "filter_ranked_list scores top_k threshold =
               Inr (filter_relevance_by_threshold scores threshold)"
    by (simp add: filter_ranked_list_def)
next
  assume a: "distinct (map fst scores) \<and> 5 \<le> length scores \<and> (\<forall>(d, v) \<in> set scores. v < threshold)"
  then have "filter_ranked_list scores 5 threshold =
               Inr (map (\<lambda>w. (w, score_key scores w)) (take 5 (sorted_reverse scores)))"
    using filter_relevance_by_top_k_take [of scores 5] by (simp add: filter_ranked_list_def)
  moreover have "length (map (\<lambda>w. (w, score_key scores w)) (take 5 (sorted_reverse scores))) = 5"
    using a by (simp add: sorted_reverse_def)
  ultimately show "\<exists>r. filter_ranked_list scores 5 threshold = Inr r \<and> length r = 5"
    by blast
qed

theorem filter_ranked_list_precedence_witness:
  "filter_ranked_list six_scores 5 10 = filter_relevance_by_top_k six_scores 5
   \<and> filter_ranked_list six_scores (- 1) 10 = Inr (filter_relevance_by_threshold six_scores 10)
   \<and> distinct (map fst six_scores) \<and> 5 \<le> length six_scores
   \<and> list_all (\<lambda>(d, v). v < 10) six_scores
   \<and> (\<exists>r. filter_ranked_list six_scores 5 10 = Inr r \<and> length r = 5)"
proof -
  have above: "list_all (\<lambda>(d, v). v < 10) six_scores"
    by (simp add: six_scores_def)
  have h: "distinct (map fst six_scores) \<and> 5 \<le> length six_scores
             \<and> (\<forall>(d, v) \<in> set six_scores. v < 10)"
    by (simp add: six_scores_def)
  show ?thesis
    using above h filter_ranked_list_precedence [of 5 six_scores 10]
      filter_ranked_list_precedence [of "- 1" six_scores 10]
    by simp
qed

subsection \<open>The end-to-end scenario\<close>

lemma sorted_reverse_q1: "sorted_reverse q1_predicted = [''d1'', ''d2'', ''d3'']"
  by (simp add: sorted_reverse_def q1_predicted_def score_key_def dict_get_def)

lemma filter_ranked_list_q1: "filter_ranked_list q1_predicted (- 1) 0 = Inr q1_predicted"
  by (simp add: filter_ranked_list_def filter_relevance_by_threshold_def q1_predicted_def)

text \<open>
  C4, as stated: on the scenario, with threshold 0 and \<open>top_k = -1\<close>, \<^verbatim>\<open>r_prec\<close> is
  claimed to return 0.5.  It does not.
\<close>

theorem r_prec_q1_not_half: "r_prec q1_predicted q1_actual 0 (- 1) \<noteq> Inr (1 / 2)"
  by (simp add: r_prec_def filter_ranked_list_q1 sorted_reverse_q1 q1_actual_def
      relevance_at_def)

text \<open>
  C4, amended: on the scenario \<^verbatim>\<open>r_prec\<close> returns 1.  All three documents have a
  score above the threshold 0, so both relevant documents \<^verbatim>\<open>d1\<close> and \<^verbatim>\<open>d3\<close> are in
  the retrieved set, and the count 2 is divided by the 2 relevant documents of the
  ground truth.
\<close>

theorem r_prec_q1_is_one: "r_prec q1_predicted q1_actual 0 (- 1) = Inr 1"
  by (simp add: r_prec_def filter_ranked_list_q1 sorted_reverse_q1 q1_actual_def
      relevance_at_def)

text \<open>
  C7.  On the scenario, with threshold 0 and \<open>top_k = -1\<close>, \<^verbatim>\<open>avg_precision_score\<close>
  returns the mean of \<open>[1/1, 2/3]\<close>, which is \<open>5/6 = 0.8333...\<close>, and
  \<^verbatim>\<open>ReciprocalRank.rank\<close> returns 1.
\<close>

theorem avg_precision_score_and_rank_q1:
  "avg_precision_score q1_predicted q1_actual 0 (- 1) = Inr ((1 / 1 + 2 / 3) / 2)
   \<and> avg_precision_score q1_predicted q1_actual 0 (- 1) = Inr (5 / 6)
   \<and> rank q1_predicted q1_actual 0 (- 1) = Inr 1"
  by (simp add: avg_precision_score_def rank_def filter_ranked_list_q1 sorted_reverse_q1
      q1_actual_def relevance_at_def py_truediv_def)

subsection \<open>Means over no scores\<close>

text \<open>
  C9, as stated: when no query contributed a score, each of the three means is claimed
  to be an undefined division by zero.  \<^verbatim>\<open>mean_avg_precision\<close> returns 0 instead.
\<close>

theorem mean_avg_precision_empty_returns:
  "mean_avg_precision \<lparr>precision_scores = ([] :: (string, real) dict), recall_scores = []\<rparr> = Inr 0"
  by (simp add: mean_avg_precision_def)

text \<open>
  C9, amended: when no query contributed a score, \<^verbatim>\<open>mean_avg_precision\<close> returns 0
  under its guard \<^verbatim>\<open>len_prec > 0\<close>, while \<^verbatim>\<open>mean_reciprocal_rank\<close> and
  \<^verbatim>\<open>mean_r_prec\<close> divide the accumulated total, which is 0, by the number of
  contributing queries, which is 0 as well: the numpy division raises no error and
  they return \<^verbatim>\<open>nan\<close>, not a number.
\<close>

theorem means_of_no_scores:
  "(precision_scores ap = [] \<longrightarrow> mean_avg_precision ap = Inr 0)
   \<and> (ranks rr = [] \<longrightarrow> mean_reciprocal_rank rr = NpNaN)
   \<and> (r_prec_scores pr = [] \<longrightarrow> mean_r_prec pr = NpNaN)"
  by (simp add: mean_avg_precision_def mean_reciprocal_rank_def mean_r_prec_def np_truediv_def)

theorem means_of_no_scores_witness:
  "precision_scores \<lparr>precision_scores = ([] :: (string, real) dict), recall_scores = []\<rparr> = []
   \<and> mean_avg_precision \<lparr>precision_scores = ([] :: (string, real) dict), recall_scores = []\<rparr> = Inr 0
   \<and> ranks \<lparr>ranks = []\<rparr> = []
   \<and> mean_reciprocal_rank \<lparr>ranks = []\<rparr> = NpNaN
   \<and> r_prec_scores \<lparr>r_prec_scores = []\<rparr> = []
   \<and> mean_r_prec \<lparr>r_prec_scores = []\<rparr> = NpNaN"
  using means_of_no_scores [of "\<lparr>precision_scores = ([] :: (string, real) dict), recall_scores = []\<rparr>"
      "\<lparr>ranks = []\<rparr>" "\<lparr>r_prec_scores = []\<rparr>"]
  by simp

section \<open>Properties of tf_idf.py\<close>

text \<open>
  C5, as stated: constructing the engine from a corpus without documents is claimed to
  fail.  On the empty dict the constructor returns an engine whose idf vector and
  matrix are empty.
\<close>

theorem tfidf_init_empty_corpus_succeeds:
  "tfidf_init (Some ([] :: (string, (string, int) dict) dict)) =
     Inr \<lparr>tfidf_documents = [], idf_vector = [], term_doc_matrix = []\<rparr>"
  by (simp add: tfidf_init_def create_tf_idf_matrix_def create_idf_matrix_def create_tf_matrix_def)

text \<open>
  C5, amended: constructing the engine with an absent corpus, \<^verbatim>\<open>None\<close>, raises the
  initialization error; constructing it with the empty corpus succeeds and gives an
  engine with an empty idf vector and an empty matrix.
\<close>

theorem tfidf_init_absent_or_empty:
  "tfidf_init (None :: (string, (string, int) dict) dict option) = Inl InitError
   \<and> (\<exists>engine. tfidf_init (Some ([] :: (string, (string, int) dict) dict)) = Inr engine
         \<and> idf_vector engine = [] \<and> term_doc_matrix engine = [])"
  by (simp add: tfidf_init_def create_tf_idf_matrix_def create_idf_matrix_def create_tf_matrix_def)

subsection \<open>Query vectors\<close>

lemma tfidf_init_corpus_a: "tfidf_init (Some corpus_a_docs) = Inr engine_a"
  by (simp add: tfidf_init_def create_tf_idf_matrix_def create_idf_matrix_def create_tf_matrix_def
      corpus_a_docs_def engine_a_def dict_mem_def dict_get_def py_truediv_def py_log10_def
      get_max_freq_term_def add_ele_to_matrix_def)

lemma weight_loop_size_changed:
  "length word_dict \<noteq> used \<Longrightarrow> weight_loop idf used items word_dict = Inl RuntimeError"
  by (cases items) auto

lemma length_dict_pop:
  "distinct (map fst d) \<Longrightarrow> key \<in> fst ` set d \<Longrightarrow> Suc (length (dict_pop key d)) = length d"
proof (induction d)
  case Nil
  then show ?case by simp
next
  case (Cons p d)
  show ?case
  proof (cases "fst p = key")
    case True
    then have "key \<notin> fst ` set d" using Cons.prems by auto
    then have "filter (\<lambda>q. fst q \<noteq> key) d = d" by (auto intro: filter_True)
    then show ?thesis using True by (simp add: dict_pop_def)
  next
    case False
    then show ?thesis using Cons by (auto simp: dict_pop_def)
  qed
qed

lemma map_fst_dict_update:
  "key \<in> fst ` set d \<Longrightarrow> map fst (dict_update key v d) = map fst d"
  by (induction d) auto

lemma weight_loop_unknown_key:
  assumes "distinct (map fst word_dict)" and "fst ` set items \<subseteq> fst ` set word_dict"
    and "\<exists>k \<in> fst ` set items. dict_get idf k = None"
  shows "weight_loop idf used items word_dict = Inl RuntimeError"
  using assms
proof (induction items arbitrary: word_dict)
  case Nil
  then show ?case by simp
next
  case (Cons p items)
  obtain k v where p: "p = (k, v)" by (cases p)
  have k: "k \<in> fst ` set word_dict" using Cons.prems(2) p by auto
  show ?case
  proof (cases "length word_dict = used")
    case False
    then show ?thesis by (rule weight_loop_size_changed)
  next
    case True
    show ?thesis
    proof (cases "dict_get idf k")
      case None
      have "length (dict_pop k word_dict) \<noteq> used"
        using length_dict_pop [OF Cons.prems(1) k] True by simp
      then have "weight_loop idf used items (dict_pop k word_dict) = Inl RuntimeError"
        by (rule weight_loop_size_changed)
      then show ?thesis using True None p by simp
    next
      case (Some w)
      let ?d = "dict_update k (w * v) word_dict"
      have keys: "map fst ?d = map fst word_dict" using k by (rule map_fst_dict_update)
      have "distinct (map fst ?d)" using keys Cons.prems(1) by simp
      moreover have "fst ` set items \<subseteq> fst ` set ?d"
      proof -
        have "fst ` set ?d = fst ` set word_dict" using keys by (metis set_map)
        then show ?thesis using Cons.prems(2) by auto
      qed
      moreover have "\<exists>k' \<in> fst ` set items. dict_get idf k' = None"
        using Cons.prems(3) Some p by auto
      ultimately have "weight_loop idf used items ?d = Inl RuntimeError"
        by (rule Cons.IH)
      then show ?thesis using True Some p by simp
    qed
  qed
qed

lemma count_loop_keys:
  "set ws \<subseteq> fst ` set word_dict \<Longrightarrow>
   \<exists>d. count_loop ws word_dict = Inr d \<and> map fst d = map fst word_dict"
proof (induction ws arbitrary: word_dict)
  case Nil
  then show ?case by simp
next
  case (Cons w ws)
  then have w: "w \<in> fst ` set word_dict" by simp
  then obtain c where c: "dict_get word_dict w = Some c"
    unfolding dict_get_def by (cases "map_of word_dict w") (auto simp: map_of_eq_None_iff)
  let ?d = "dict_update w (c + 1) word_dict"
  have keys: "map fst ?d = map fst word_dict" using w by (rule map_fst_dict_update)
  then have "fst ` set ?d = fst ` set word_dict" by (metis set_map)
  then have "set ws \<subseteq> fst ` set ?d" using Cons.prems by simp
  then obtain d where "count_loop ws ?d = Inr d" and "map fst d = map fst ?d"
    using Cons.IH by blast
  then show ?case using c keys by simp
qed

text \<open>
  Whenever some token of the query is not a key of the idf vector, the weighting loop
  removes it from the dict it is iterating over, and the call ends in
  \<^verbatim>\<open>RuntimeError\<close>.
\<close>

lemma create_query_vector_raises:
  assumes "t \<in> set (str_split query)" and "dict_get (idf_vector self) t = None"
  shows "create_query_vector self query = Inl RuntimeError"
proof -
  let ?tokens = "str_split query"
  let ?d0 = "map (\<lambda>w. (w, 0 :: real)) (remdups ?tokens)"
  have keys0: "map fst ?d0 = remdups ?tokens" by (simp add: comp_def)
  then have "fst ` set ?d0 = set ?tokens" by (metis set_map set_remdups)
  then obtain d where d: "count_loop ?tokens ?d0 = Inr d" and keys: "map fst d = map fst ?d0"
    using count_loop_keys [of ?tokens ?d0] by blast
  have dist: "distinct (map fst d)" using keys keys0 by simp
  have "fst ` set d = set ?tokens" using keys keys0 by (metis set_map set_remdups)
  then have "\<exists>k \<in> fst ` set d. dict_get (idf_vector self) k = None" using assms by blast
  then have "weight_loop (idf_vector self) (length d) d d = Inl RuntimeError"
    using weight_loop_unknown_key [OF dist, of d] by simp
  then show ?thesis using d by (simp add: create_query_vector_def)
qed

lemma dict_get_dict_update:
  "dict_get (dict_update key v d) k = (if k = key then Some v else dict_get d k)"
  by (induction d) (auto simp: dict_get_def)

lemma dict_get_Cons:
  "dict_get ((a, b) # d) k = (if k = a then Some b else dict_get d k)"
  by (simp add: dict_get_def)

lemma count_loop_counts:
  assumes "set ws \<subseteq> fst ` set word_dict"
  shows "\<exists>d. count_loop ws word_dict = Inr d \<and> map fst d = map fst word_dict
           \<and> (\<forall>k. dict_get d k =
                 map_option (\<lambda>c. c + real (count_list ws k)) (dict_get word_dict k))"
  using assms
proof (induction ws arbitrary: word_dict)
  case Nil
  show ?case by (simp add: option.map_ident)
next
  case (Cons w ws)
  then have w: "w \<in> fst ` set word_dict" by simp
  then obtain c where c: "dict_get word_dict w = Some c"
    using dict_get_key [of w word_dict] by blast
  let ?d = "dict_update w (c + 1) word_dict"
  have keys: "map fst ?d = map fst word_dict" using w by (rule map_fst_dict_update)
  then have "fst ` set ?d = fst ` set word_dict" by (metis set_map)
  then have "set ws \<subseteq> fst ` set ?d" using Cons.prems by simp
  then obtain d where d: "count_loop ws ?d = Inr d" and dk: "map fst d = map fst ?d"
    and dv: "\<And>k. dict_get d k = map_option (\<lambda>c. c + real (count_list ws k)) (dict_get ?d k)"
    using Cons.IH [of ?d] by blast
  have "dict_get d k =
          map_option (\<lambda>c. c + real (count_list (w # ws) k)) (dict_get word_dict k)" for k
    using dv [of k] c by (cases "dict_get word_dict k") (auto simp: dict_get_dict_update)
  then show ?case using d dk keys c by simp
qed

lemma weight_loop_known_keys:
  assumes "length word_dict = used" and "fst ` set items \<subseteq> fst ` set word_dict"
    and "distinct (map fst items)"
    and "\<forall>k \<in> fst ` set items. dict_get idf k \<noteq> None"
  shows "\<exists>d. weight_loop idf used items word_dict = Inr d \<and> map fst d = map fst word_dict
           \<and> (\<forall>k. dict_get d k =
                 (case dict_get items k of
                    None \<Rightarrow> dict_get word_dict k
                  | Some v \<Rightarrow> map_option (\<lambda>w. w * v) (dict_get idf k)))"
  using assms
proof (induction items arbitrary: word_dict)
  case Nil
  then show ?case by (simp add: dict_get_def)
next
  case (Cons p items)
  obtain k v where p: "p = (k, v)" by (cases p)
  have k: "k \<in> fst ` set word_dict" using Cons.prems(2) p by auto
  obtain w where w: "dict_get idf k = Some w" using Cons.prems(4) p by auto
  let ?d = "dict_update k (w * v) word_dict"
  have keys: "map fst ?d = map fst word_dict" using k by (rule map_fst_dict_update)
  have len: "length ?d = used" using keys Cons.prems(1) by (metis length_map)
  have dom: "fst ` set ?d = fst ` set word_dict" using keys by (metis set_map)
  have fresh: "dict_get items k = None"
    using Cons.prems(3) p by (auto simp: dict_get_def map_of_eq_None_iff)
  have "\<exists>d. weight_loop idf used items ?d = Inr d \<and> map fst d = map fst ?d
           \<and> (\<forall>k'. dict_get d k' =
                 (case dict_get items k' of
                    None \<Rightarrow> dict_get ?d k'
                  | Some v' \<Rightarrow> map_option (\<lambda>w. w * v') (dict_get idf k')))"
    using Cons.IH [of ?d] len dom Cons.prems by auto
  then obtain d where d: "weight_loop idf used items ?d = Inr d" and dk: "map fst d = map fst ?d"
    and dv: "\<And>k'. dict_get d k' =
                 (case dict_get items k' of
                    None \<Rightarrow> dict_get ?d k'
                  | Some v' \<Rightarrow> map_option (\<lambda>w. w * v') (dict_get idf k'))"
    by blast
  have "dict_get d k' =
          (case dict_get (p # items) k' of
             None \<Rightarrow> dict_get word_dict k'
           | Some v' \<Rightarrow> map_option (\<lambda>w. w * v') (dict_get idf k'))" for k'
  proof (cases "k' = k")
    case True
    then show ?thesis using dv [of k] fresh w p by (simp add: dict_get_dict_update dict_get_Cons)
  next
    case False
    then show ?thesis using dv [of k'] p
      by (simp add: dict_get_dict_update dict_get_Cons split: option.split)
  qed
  then show ?case using d dk keys w p Cons.prems(1) by simp
qed

text \<open>
  When every token of the query is a key of the idf vector, nothing is removed: the
  result has the distinct tokens as its keys, each weighted by its idf times the number
  of its occurrences in the query.
\<close>

lemma create_query_vector_known_terms:
  assumes "\<forall>t \<in> set (str_split query). dict_get (idf_vector self) t \<noteq> None"
  shows "\<exists>r. create_query_vector self query = Inr r
           \<and> set (map fst r) = set (str_split query) \<and> distinct (map fst r)
           \<and> (\<forall>t \<in> set (str_split query).
                 dict_get r t =
                   map_option (\<lambda>w. w * real (count_list (str_split query) t))
                     (dict_get (idf_vector self) t))"
proof -
  let ?tokens = "str_split query"
  let ?d0 = "map (\<lambda>w. (w, 0 :: real)) (remdups ?tokens)"
  have keys0: "map fst ?d0 = remdups ?tokens" by (simp add: comp_def)
  then have dom0: "fst ` set ?d0 = set ?tokens" by (metis set_map set_remdups)
  have get0: "dict_get ?d0 t = Some 0" if "t \<in> set ?tokens" for t
    using that by (simp add: dict_get_def map_of_map_restrict)
  obtain d where d: "count_loop ?tokens ?d0 = Inr d" and dk: "map fst d = map fst ?d0"
    and dv: "\<And>k. dict_get d k =
               map_option (\<lambda>c. c + real (count_list ?tokens k)) (dict_get ?d0 k)"
    using count_loop_counts [of ?tokens ?d0] dom0 by blast
  have dist: "distinct (map fst d)" using dk keys0 by simp
  have dom: "fst ` set d = set ?tokens" using dk keys0 by (metis set_map set_remdups)
  have known: "\<forall>k \<in> fst ` set d. dict_get (idf_vector self) k \<noteq> None"
    using assms dom by simp
  obtain r where r: "weight_loop (idf_vector self) (length d) d d = Inr r"
    and rk: "map fst r = map fst d"
    and rv: "\<And>k. dict_get r k =
               (case dict_get d k of
                  None \<Rightarrow> dict_get d k
                | Some v \<Rightarrow> map_option (\<lambda>w. w * v) (dict_get (idf_vector self) k))"
    using weight_loop_known_keys [of d "length d" d "idf_vector self"] dist known by blast
  have res: "create_query_vector self query = Inr r"
    using d r by (simp add: create_query_vector_def)
  have val: "dict_get r t =
               map_option (\<lambda>w. w * real (count_list ?tokens t)) (dict_get (idf_vector self) t)"
    if "t \<in> set ?tokens" for t
    using rv [of t] dv [of t] get0 [OF that] by simp
  have "set (map fst r) = set ?tokens" using rk dk keys0 by simp
  moreover have "distinct (map fst r)" using rk dist by simp
  ultimately show ?thesis using res val by blast
qed

text \<open>
  C6.  A query token that is not in the idf vocabulary is claimed to be dropped without
  any error.  The engine built from the corpus \<^verbatim>\<open>{'d1': {'a': 1}}\<close> has the idf
  vocabulary \<^verbatim>\<open>{a}\<close>; on the query \<^verbatim>\<open>b\<close> the handler of the \<^verbatim>\<open>KeyError\<close> pops the
  token from the dict under iteration and the call raises \<^verbatim>\<open>RuntimeError\<close>.
\<close>

theorem create_query_vector_unknown_term_raises:
  "tfidf_init (Some corpus_a_docs) = Inr engine_a
   \<and> create_query_vector engine_a ''b'' = Inl RuntimeError"
  by (simp add: tfidf_init_corpus_a create_query_vector_def engine_a_def str_split_def
      is_space_def dict_get_def dict_pop_def)

end
